theory Spec2Isabelle
  imports Main "HOL-Library.Word"
begin

unbundle bit_operations_syntax

section \<open>The flush tracer of the host (host/flush_tracer.go)\<close>

text \<open>
  The file turns the callbacks of the gossip runtime into trace envelopes and hands each
  envelope to the configured data stream. The model is a state transformer on the host:
  every callback takes the host and returns it updated. What the Go code reaches outside
  the file is explicit:
  \<^item> the data stream client \<open>h.cfg.DataStream\<close> is a field of the host, a function from
    the context and the event to the error it returns (\<open>None\<close> for \<open>nil\<close>);
  \<^item> the reading of \<open>time.Now()\<close> is an argument \<open>now\<close> of the callbacks that read it;
  \<^item> \<open>json.Marshal\<close>, \<open>uuid.NewUUID\<close> and \<open>newRPCMeta\<close> are arguments of the
    functions that call them;
  \<^item> the host keeps the list of the events handed to the client, the warnings logged, the
    counter of submitted traces and the number of contexts created and not yet released.
\<close>

subsection \<open>Data\<close>

type_synonym byte = "8 word"

text \<open>
  A \<open>peer.ID\<close> and a \<open>uuid.UUID\<close> are represented by their text form, the value of
  their \<open>String()\<close> method, so that \<open>String()\<close> is the identity on the model.
\<close>

type_synonym peer_ID = string
type_synonym protocol_ID = string

text \<open>
  Modelled from the spec: the \<open>EventType\<close> enumeration, whose declaration is outside
  this source file. The constructors are the sixteen constants the file uses.
\<close>

datatype EventType =
    EventTypeAddPeer
  | EventTypeRemovePeer
  | EventTypeJoin
  | EventTypeLeave
  | EventTypeGraft
  | EventTypePrune
  | EventTypeValidateMessage
  | EventTypeDeliverMessage
  | EventTypeRejectMessage
  | EventTypeDuplicateMessage
  | EventTypeThrottlePeer
  | EventTypeUndeliverableMessage
  | EventTypePublishMessage
  | EventTypeRecvRPC
  | EventTypeSendRPC
  | EventTypeDropRPC

text \<open>
  A \<open>time.Time\<close> as seconds since the Unix epoch and nanoseconds within the second.
\<close>

record Time =
  t_sec :: int
  t_nsec :: int

text \<open>Go's integer quotient truncates towards zero.\<close>

definition quo :: "int \<Rightarrow> int \<Rightarrow> int" where
  "quo a b = sgn a * sgn b * (\<bar>a\<bar> div \<bar>b\<bar>)"

text \<open>\<open>time.Unix(sec, nsec)\<close>: nanoseconds outside \<open>[0, 1e9)\<close> are carried into the seconds.\<close>

definition time_Unix :: "int \<Rightarrow> int \<Rightarrow> Time" where
  "time_Unix sec nsec =
     (if nsec < 0 \<or> nsec \<ge> 1000000000 then
        (let n = quo nsec 1000000000;
             sec1 = sec + n;
             nsec1 = nsec - n * 1000000000
         in if nsec1 < 0 then \<lparr>t_sec = sec1 - 1, t_nsec = nsec1 + 1000000000\<rparr>
            else \<lparr>t_sec = sec1, t_nsec = nsec1\<rparr>)
      else \<lparr>t_sec = sec, t_nsec = nsec\<rparr>)"

text \<open>\<open>t.UnixNano()\<close>: the nanoseconds since the epoch that a time stands for.\<close>

definition UnixNano :: "Time \<Rightarrow> int" where
  "UnixNano t = t_sec t * 1000000000 + t_nsec t"

text \<open>The values the file stores under a key of a \<open>map[string]any\<close> payload.\<close>

datatype any =
    AnyPeerID peer_ID
  | AnyProtocolID protocol_ID
  | AnyString string
  | AnyBool bool
  | AnyInt int
  | AnyBytes "byte list"

text \<open>
  A payload is a \<open>map[string]any\<close> literal (its entries in the order of the source) or
  the value \<open>newRPCMeta\<close> returns, of a type \<open>'r\<close> declared outside this file.
\<close>

datatype 'r payload =
    MapPayload "(string \<times> any) list"
  | RpcMetaPayload 'r

record 'r TraceEvent =
  Type :: EventType
  PeerID :: peer_ID
  Timestamp :: Time
  Payload :: "'r payload"

datatype error =
    DeadlineExceeded
  | Canceled
  | ErrOther string

type_synonym log_entry = "string \<times> error"

text \<open>\<open>context.TODO()\<close> and \<open>context.WithTimeout(parent, d)\<close>, \<open>d\<close> in nanoseconds.\<close>

datatype Context =
    TODO
  | WithTimeout Context int

definition Second :: int where
  "Second = 1000000000"

text \<open>
  The host: its identity \<open>h.ID()\<close>, the client \<open>h.cfg.DataStream\<close>, the counter
  \<open>h.meterSubmittedTraces\<close>, and the effects of the file on the world: the calls of
  \<open>PutEvent\<close> made so far, the warnings given to \<open>slog.Warn\<close>, and the number of
  contexts whose \<open>cancel\<close> has not run yet.
\<close>

record 'r Host =
  ID :: peer_ID
  DataStream_PutEvent :: "Context \<Rightarrow> 'r TraceEvent \<Rightarrow> error option"
  meterSubmittedTraces :: nat
  putEvents :: "(Context \<times> 'r TraceEvent) list"
  slog_Warn :: "log_entry list"
  liveContexts :: nat

text \<open>
  A \<open>pubsub.Message\<close>: the fields and getters the file reads. \<open>msg_Size\<close> is the value
  of \<open>msg.Size()\<close>, computed by the protobuf library; \<open>msg_ID\<close> is the bytes of the Go
  string \<open>msg.ID\<close>; \<open>msg_Seqno\<close> is empty when the field is absent.
\<close>

record Message =
  msg_ID :: "byte list"
  msg_ReceivedFrom :: peer_ID
  msg_Local :: bool
  msg_Topic :: "string option"
  msg_Seqno :: "byte list"
  msg_Size :: int

definition GetTopic :: "Message \<Rightarrow> string" where
  "GetTopic msg = (case msg_Topic msg of None \<Rightarrow> [] | Some t \<Rightarrow> t)"

definition GetSeqno :: "Message \<Rightarrow> byte list" where
  "GetSeqno msg = msg_Seqno msg"

text \<open>
  A \<open>pubsubpb.TraceEvent\<close>: optional fields are pointers in Go, and each getter returns
  the zero value through a nil pointer. The notification kind is an \<open>int32\<close>; the type
  \<open>'m\<close> is the protobuf RPC metadata, declared outside this file.
\<close>

record pb_PublishMessage =
  pb_MessageID :: "byte list"
  pb_Topic :: "string option"

record 'm pb_RecvRPC =
  pb_ReceivedFrom :: "byte list"
  pb_RecvMeta :: "'m option"

record 'm pb_SendRPC =
  pb_SendTo :: "byte list"
  pb_SendMeta :: "'m option"

record 'm pb_DropRPC =
  pb_DropSendTo :: "byte list"
  pb_DropMeta :: "'m option"

record 'm pb_TraceEvent =
  pb_Type :: "int option"
  pb_Timestamp :: "int option"
  pb_PublishMessage :: "pb_PublishMessage option"
  pb_RecvRPC :: "'m pb_RecvRPC option"
  pb_SendRPC :: "'m pb_SendRPC option"
  pb_DropRPC :: "'m pb_DropRPC option"

definition TraceEvent_PUBLISH_MESSAGE :: int where "TraceEvent_PUBLISH_MESSAGE = 0"
definition TraceEvent_RECV_RPC :: int where "TraceEvent_RECV_RPC = 6"
definition TraceEvent_SEND_RPC :: int where "TraceEvent_SEND_RPC = 7"
definition TraceEvent_DROP_RPC :: int where "TraceEvent_DROP_RPC = 8"

definition GetType :: "'m pb_TraceEvent \<Rightarrow> int" where
  "GetType evt = (case pb_Type evt of None \<Rightarrow> TraceEvent_PUBLISH_MESSAGE | Some k \<Rightarrow> k)"

definition GetTimestamp :: "'m pb_TraceEvent \<Rightarrow> int" where
  "GetTimestamp evt = (case pb_Timestamp evt of None \<Rightarrow> 0 | Some ts \<Rightarrow> ts)"

definition GetMessageID :: "pb_PublishMessage option \<Rightarrow> byte list" where
  "GetMessageID m = (case m of None \<Rightarrow> [] | Some p \<Rightarrow> pb_MessageID p)"

definition GetPublishTopic :: "pb_PublishMessage option \<Rightarrow> string" where
  "GetPublishTopic m =
     (case m of None \<Rightarrow> [] | Some p \<Rightarrow> (case pb_Topic p of None \<Rightarrow> [] | Some t \<Rightarrow> t))"

definition GetReceivedFrom :: "'m pb_RecvRPC option \<Rightarrow> byte list" where
  "GetReceivedFrom r = (case r of None \<Rightarrow> [] | Some x \<Rightarrow> pb_ReceivedFrom x)"

definition GetRecvMeta :: "'m pb_RecvRPC option \<Rightarrow> 'm option" where
  "GetRecvMeta r = (case r of None \<Rightarrow> None | Some x \<Rightarrow> pb_RecvMeta x)"

definition GetSendTo :: "'m pb_SendRPC option \<Rightarrow> byte list" where
  "GetSendTo r = (case r of None \<Rightarrow> [] | Some x \<Rightarrow> pb_SendTo x)"

definition GetSendMeta :: "'m pb_SendRPC option \<Rightarrow> 'm option" where
  "GetSendMeta r = (case r of None \<Rightarrow> None | Some x \<Rightarrow> pb_SendMeta x)"

definition GetDropSendTo :: "'m pb_DropRPC option \<Rightarrow> byte list" where
  "GetDropSendTo r = (case r of None \<Rightarrow> [] | Some x \<Rightarrow> pb_DropSendTo x)"

definition GetDropMeta :: "'m pb_DropRPC option \<Rightarrow> 'm option" where
  "GetDropMeta r = (case r of None \<Rightarrow> None | Some x \<Rightarrow> pb_DropMeta x)"

subsection \<open>encoding/hex\<close>

definition hextable :: string where
  "hextable = ''0123456789abcdef''"

fun EncodeToString :: "byte list \<Rightarrow> string" where
  "EncodeToString [] = []"
| "EncodeToString (v # src) =
     hextable ! unat (drop_bit 4 v) # hextable ! unat (v AND 0x0f) # EncodeToString src"

subsection \<open>The record methods of the envelope\<close>

text \<open>
  \<open>PartitionKey\<close>: the argument \<open>newUUID\<close> is what \<open>uuid.NewUUID()\<close> returned, an
  error or the text of the identifier.
\<close>

definition PartitionKey :: "error + string \<Rightarrow> 'r TraceEvent \<Rightarrow> string" where
  "PartitionKey newUUID t = (case newUUID of Inl err \<Rightarrow> PeerID t | Inr u \<Rightarrow> u)"

definition ExplicitHashKey :: "'r TraceEvent \<Rightarrow> string option" where
  "ExplicitHashKey t = None"


subsection \<open>Delivery\<close>

definition cancel :: "'r Host \<Rightarrow> 'r Host" where
  "cancel h = h\<lparr>liveContexts := liveContexts h - 1\<rparr>"

text \<open>
  \<open>FlushTraceWithTimestamp\<close>: build the envelope, create the context, call the client
  once; on an error log the warning and return, otherwise add one to the counter. The
  deferred \<open>cancel\<close> runs on both exits.
\<close>

definition FlushTraceWithTimestamp ::
  "EventType \<Rightarrow> Time \<Rightarrow> 'r payload \<Rightarrow> 'r Host \<Rightarrow> 'r Host" where
  "FlushTraceWithTimestamp evtType timestamp pl h =
     (let evt = \<lparr>Type = evtType, PeerID = ID h, Timestamp = timestamp, Payload = pl\<rparr>;
          ctx = WithTimeout TODO (10 * Second);
          h1 = h\<lparr>liveContexts := liveContexts h + 1\<rparr>;
          h2 = h1\<lparr>putEvents := putEvents h1 @ [(ctx, evt)]\<rparr>
      in case DataStream_PutEvent h ctx evt of
           Some err \<Rightarrow>
             cancel (h2\<lparr>slog_Warn :=
               slog_Warn h2 @ [(''Failed to put trace event payload'', err)]\<rparr>)
         | None \<Rightarrow>
             cancel (h2\<lparr>meterSubmittedTraces := meterSubmittedTraces h2 + 1\<rparr>))"

definition FlushTrace :: "Time \<Rightarrow> EventType \<Rightarrow> 'r payload \<Rightarrow> 'r Host \<Rightarrow> 'r Host" where
  "FlushTrace now evtType pl h = FlushTraceWithTimestamp evtType now pl h"

subsection \<open>The lifecycle callbacks\<close>

definition AddPeer :: "Time \<Rightarrow> peer_ID \<Rightarrow> protocol_ID \<Rightarrow> 'r Host \<Rightarrow> 'r Host" where
  "AddPeer now p proto h =
     FlushTrace now EventTypeAddPeer
       (MapPayload [(''PeerID'', AnyPeerID p), (''Protocol'', AnyProtocolID proto)]) h"

definition RemovePeer :: "Time \<Rightarrow> peer_ID \<Rightarrow> 'r Host \<Rightarrow> 'r Host" where
  "RemovePeer now p h =
     FlushTrace now EventTypeRemovePeer (MapPayload [(''PeerID'', AnyPeerID p)]) h"

definition Join :: "Time \<Rightarrow> string \<Rightarrow> 'r Host \<Rightarrow> 'r Host" where
  "Join now topic h =
     FlushTrace now EventTypeJoin (MapPayload [(''Topic'', AnyString topic)]) h"

definition Leave :: "Time \<Rightarrow> string \<Rightarrow> 'r Host \<Rightarrow> 'r Host" where
  "Leave now topic h =
     FlushTrace now EventTypeLeave (MapPayload [(''Topic'', AnyString topic)]) h"

definition Graft :: "Time \<Rightarrow> peer_ID \<Rightarrow> string \<Rightarrow> 'r Host \<Rightarrow> 'r Host" where
  "Graft now p topic h =
     FlushTrace now EventTypeGraft
       (MapPayload [(''PeerID'', AnyPeerID p), (''Topic'', AnyString topic)]) h"

definition Prune :: "Time \<Rightarrow> peer_ID \<Rightarrow> string \<Rightarrow> 'r Host \<Rightarrow> 'r Host" where
  "Prune now p topic h =
     FlushTrace now EventTypePrune
       (MapPayload [(''PeerID'', AnyPeerID p), (''Topic'', AnyString topic)]) h"

definition ValidateMessage :: "Time \<Rightarrow> Message \<Rightarrow> 'r Host \<Rightarrow> 'r Host" where
  "ValidateMessage now msg h =
     FlushTrace now EventTypeValidateMessage
       (MapPayload
          [(''PeerID'', AnyPeerID (msg_ReceivedFrom msg)),
           (''Topic'', AnyString (GetTopic msg)),
           (''MsgID'', AnyString (EncodeToString (msg_ID msg))),
           (''Local'', AnyBool (msg_Local msg)),
           (''MsgSize'', AnyInt (msg_Size msg)),
           (''SeqNo'', AnyString (EncodeToString (GetSeqno msg)))]) h"

definition DeliverMessage :: "Time \<Rightarrow> Message \<Rightarrow> 'r Host \<Rightarrow> 'r Host" where
  "DeliverMessage now msg h =
     FlushTrace now EventTypeDeliverMessage
       (MapPayload
          [(''PeerID'', AnyPeerID (msg_ReceivedFrom msg)),
           (''Topic'', AnyString (GetTopic msg)),
           (''MsgID'', AnyString (EncodeToString (msg_ID msg))),
           (''Local'', AnyBool (msg_Local msg)),
           (''MsgSize'', AnyInt (msg_Size msg)),
           (''Seq'', AnyString (EncodeToString (GetSeqno msg)))]) h"

definition RejectMessage :: "Time \<Rightarrow> Message \<Rightarrow> string \<Rightarrow> 'r Host \<Rightarrow> 'r Host" where
  "RejectMessage now msg reason h =
     FlushTrace now EventTypeRejectMessage
       (MapPayload
          [(''PeerID'', AnyPeerID (msg_ReceivedFrom msg)),
           (''Topic'', AnyString (GetTopic msg)),
           (''MsgID'', AnyString (EncodeToString (msg_ID msg))),
           (''Reason'', AnyString reason),
           (''Local'', AnyBool (msg_Local msg)),
           (''MsgSize'', AnyInt (msg_Size msg)),
           (''Seq'', AnyString (EncodeToString (GetSeqno msg)))]) h"

definition DuplicateMessage :: "Time \<Rightarrow> Message \<Rightarrow> 'r Host \<Rightarrow> 'r Host" where
  "DuplicateMessage now msg h =
     FlushTrace now EventTypeDuplicateMessage
       (MapPayload
          [(''PeerID'', AnyPeerID (msg_ReceivedFrom msg)),
           (''Topic'', AnyString (GetTopic msg)),
           (''MsgID'', AnyString (EncodeToString (msg_ID msg))),
           (''Local'', AnyBool (msg_Local msg)),
           (''MsgSize'', AnyInt (msg_Size msg)),
           (''Seq'', AnyString (EncodeToString (GetSeqno msg)))]) h"

definition ThrottlePeer :: "Time \<Rightarrow> peer_ID \<Rightarrow> 'r Host \<Rightarrow> 'r Host" where
  "ThrottlePeer now p h =
     FlushTrace now EventTypeThrottlePeer (MapPayload [(''PeerID'', AnyPeerID p)]) h"

text \<open>The three RPC callbacks have an empty body (``handled in EventTracer'').\<close>

definition RecvRPC :: "'rpc \<Rightarrow> 'r Host \<Rightarrow> 'r Host" where
  "RecvRPC rpc h = h"

definition SendRPC :: "'rpc \<Rightarrow> peer_ID \<Rightarrow> 'r Host \<Rightarrow> 'r Host" where
  "SendRPC rpc p h = h"

definition DropRPC :: "'rpc \<Rightarrow> peer_ID \<Rightarrow> 'r Host \<Rightarrow> 'r Host" where
  "DropRPC rpc p h = h"

definition UndeliverableMessage :: "Time \<Rightarrow> Message \<Rightarrow> 'r Host \<Rightarrow> 'r Host" where
  "UndeliverableMessage now msg h =
     FlushTrace now EventTypeUndeliverableMessage
       (MapPayload
          [(''PeerID'', AnyPeerID (msg_ReceivedFrom msg)),
           (''Topic'', AnyString (GetTopic msg)),
           (''MsgID'', AnyString (EncodeToString (msg_ID msg))),
           (''Local'', AnyBool (msg_Local msg))]) h"

subsection \<open>The wire-trace entry point\<close>

text \<open>
  \<open>Trace\<close>: the switch on the notification kind has four cases and no default. The
  argument \<open>newRPCMeta\<close> is the normaliser of the RPC metadata, defined outside this file.
\<close>

definition Trace ::
  "(byte list \<Rightarrow> 'm option \<Rightarrow> 'r) \<Rightarrow> 'm pb_TraceEvent \<Rightarrow> 'r Host \<Rightarrow> 'r Host" where
  "Trace newRPCMeta evt h =
     (let ts = time_Unix 0 (GetTimestamp evt) in
      if GetType evt = TraceEvent_PUBLISH_MESSAGE then
        FlushTraceWithTimestamp EventTypePublishMessage ts
          (MapPayload
             [(''MsgID'', AnyBytes (GetMessageID (pb_PublishMessage evt))),
              (''Topic'', AnyString (GetPublishTopic (pb_PublishMessage evt)))]) h
      else if GetType evt = TraceEvent_RECV_RPC then
        FlushTraceWithTimestamp EventTypeRecvRPC ts
          (RpcMetaPayload
             (newRPCMeta (GetReceivedFrom (pb_RecvRPC evt)) (GetRecvMeta (pb_RecvRPC evt)))) h
      else if GetType evt = TraceEvent_SEND_RPC then
        FlushTraceWithTimestamp EventTypeSendRPC ts
          (RpcMetaPayload
             (newRPCMeta (GetSendTo (pb_SendRPC evt)) (GetSendMeta (pb_SendRPC evt)))) h
      else if GetType evt = TraceEvent_DROP_RPC then
        FlushTraceWithTimestamp EventTypeDropRPC ts
          (RpcMetaPayload
             (newRPCMeta (GetDropSendTo (pb_DropRPC evt)) (GetDropMeta (pb_DropRPC evt)))) h
      else h)"

subsection \<open>The two capability surfaces as one dispatcher\<close>

text \<open>
  The runtime reaches the host through the tracer interfaces the file implements. One
  value of \<open>call\<close> stands for one invocation of one method with its arguments.
\<close>

datatype ('m, 'rpc) call =
    CallAddPeer peer_ID protocol_ID
  | CallRemovePeer peer_ID
  | CallJoin string
  | CallLeave string
  | CallGraft peer_ID string
  | CallPrune peer_ID string
  | CallValidateMessage Message
  | CallDeliverMessage Message
  | CallRejectMessage Message string
  | CallDuplicateMessage Message
  | CallThrottlePeer peer_ID
  | CallRecvRPC 'rpc
  | CallSendRPC 'rpc peer_ID
  | CallDropRPC 'rpc peer_ID
  | CallUndeliverableMessage Message
  | CallTrace "'m pb_TraceEvent"

fun invoke ::
  "Time \<Rightarrow> (byte list \<Rightarrow> 'm option \<Rightarrow> 'r) \<Rightarrow> ('m, 'rpc) call \<Rightarrow> 'r Host \<Rightarrow> 'r Host" where
  "invoke now nm (CallAddPeer p proto) h = AddPeer now p proto h"
| "invoke now nm (CallRemovePeer p) h = RemovePeer now p h"
| "invoke now nm (CallJoin topic) h = Join now topic h"
| "invoke now nm (CallLeave topic) h = Leave now topic h"
| "invoke now nm (CallGraft p topic) h = Graft now p topic h"
| "invoke now nm (CallPrune p topic) h = Prune now p topic h"
| "invoke now nm (CallValidateMessage msg) h = ValidateMessage now msg h"
| "invoke now nm (CallDeliverMessage msg) h = DeliverMessage now msg h"
| "invoke now nm (CallRejectMessage msg reason) h = RejectMessage now msg reason h"
| "invoke now nm (CallDuplicateMessage msg) h = DuplicateMessage now msg h"
| "invoke now nm (CallThrottlePeer p) h = ThrottlePeer now p h"
| "invoke now nm (CallRecvRPC rpc) h = RecvRPC rpc h"
| "invoke now nm (CallSendRPC rpc p) h = SendRPC rpc p h"
| "invoke now nm (CallDropRPC rpc p) h = DropRPC rpc p h"
| "invoke now nm (CallUndeliverableMessage msg) h = UndeliverableMessage now msg h"
| "invoke now nm (CallTrace evt) h = Trace nm evt h"

text \<open>The envelopes handed to the client between two states of the host.\<close>

definition emitted :: "'r Host \<Rightarrow> 'r Host \<Rightarrow> 'r TraceEvent list" where
  "emitted h h' = map snd (drop (length (putEvents h)) (putEvents h'))"

subsection \<open>What the specification documents\<close>

text \<open>
  These two tables follow the words of the specification, not the code. The first gives
  the event type named after each lifecycle method (and nothing for the RPC callbacks and
  the wire entry point); the second gives the payload keys documented for each type.
\<close>

fun lifecycle_type :: "('m, 'rpc) call \<Rightarrow> EventType option" where
  "lifecycle_type (CallAddPeer p proto) = Some EventTypeAddPeer"
| "lifecycle_type (CallRemovePeer p) = Some EventTypeRemovePeer"
| "lifecycle_type (CallJoin topic) = Some EventTypeJoin"
| "lifecycle_type (CallLeave topic) = Some EventTypeLeave"
| "lifecycle_type (CallGraft p topic) = Some EventTypeGraft"
| "lifecycle_type (CallPrune p topic) = Some EventTypePrune"
| "lifecycle_type (CallValidateMessage msg) = Some EventTypeValidateMessage"
| "lifecycle_type (CallDeliverMessage msg) = Some EventTypeDeliverMessage"
| "lifecycle_type (CallRejectMessage msg reason) = Some EventTypeRejectMessage"
| "lifecycle_type (CallDuplicateMessage msg) = Some EventTypeDuplicateMessage"
| "lifecycle_type (CallThrottlePeer p) = Some EventTypeThrottlePeer"
| "lifecycle_type (CallUndeliverableMessage msg) = Some EventTypeUndeliverableMessage"
| "lifecycle_type (CallRecvRPC rpc) = None"
| "lifecycle_type (CallSendRPC rpc p) = None"
| "lifecycle_type (CallDropRPC rpc p) = None"
| "lifecycle_type (CallTrace evt) = None"

fun documented_fields :: "EventType \<Rightarrow> string list" where
  "documented_fields EventTypeAddPeer = [''PeerID'', ''Protocol'']"
| "documented_fields EventTypeRemovePeer = [''PeerID'']"
| "documented_fields EventTypeJoin = [''Topic'']"
| "documented_fields EventTypeLeave = [''Topic'']"
| "documented_fields EventTypeGraft = [''PeerID'', ''Topic'']"
| "documented_fields EventTypePrune = [''PeerID'', ''Topic'']"
| "documented_fields EventTypeValidateMessage =
     [''PeerID'', ''Topic'', ''MsgID'', ''Local'', ''MsgSize'', ''SeqNo'']"
| "documented_fields EventTypeDeliverMessage =
     [''PeerID'', ''Topic'', ''MsgID'', ''Local'', ''MsgSize'', ''Seq'']"
| "documented_fields EventTypeRejectMessage =
     [''PeerID'', ''Topic'', ''MsgID'', ''Local'', ''MsgSize'', ''Seq'', ''Reason'']"
| "documented_fields EventTypeDuplicateMessage =
     [''PeerID'', ''Topic'', ''MsgID'', ''Local'', ''MsgSize'', ''Seq'']"
| "documented_fields EventTypeThrottlePeer = [''PeerID'']"
| "documented_fields EventTypeUndeliverableMessage =
     [''PeerID'', ''Topic'', ''MsgID'', ''Local'']"
| "documented_fields EventTypePublishMessage = [''MsgID'', ''Topic'']"
| "documented_fields EventTypeRecvRPC = []"
| "documented_fields EventTypeSendRPC = []"
| "documented_fields EventTypeDropRPC = []"

text \<open>The four notification kinds the wire surface handles.\<close>

definition wire_kinds :: "int set" where
  "wire_kinds =
     {TraceEvent_PUBLISH_MESSAGE, TraceEvent_RECV_RPC, TraceEvent_SEND_RPC,
      TraceEvent_DROP_RPC}"

text \<open>
  The answer of the client to the one call \<open>FlushTraceWithTimestamp\<close> makes for the
  given arguments.
\<close>

definition publish_result ::
  "EventType \<Rightarrow> Time \<Rightarrow> 'r payload \<Rightarrow> 'r Host \<Rightarrow> error option" where
  "publish_result evtType timestamp pl h =
     DataStream_PutEvent h (WithTimeout TODO (10 * Second))
       \<lparr>Type = evtType, PeerID = ID h, Timestamp = timestamp, Payload = pl\<rparr>"

subsection \<open>Concrete inputs\<close>

text \<open>
  A host with identity \<open>QmLocal\<close> and a fresh counter, two clients (one accepts every
  event, one answers every call with the deadline error), a clock reading, a normaliser
  that keeps the counterparty bytes, and notifications of kind 0 (publish) and 9 (join).
\<close>

definition example_host ::
  "(Context \<Rightarrow> (byte list) TraceEvent \<Rightarrow> error option) \<Rightarrow> (byte list) Host" where
  "example_host ds =
     \<lparr>ID = ''QmLocal'', DataStream_PutEvent = ds, meterSubmittedTraces = 0,
      putEvents = [], slog_Warn = [], liveContexts = 0\<rparr>"

definition sink_accepts :: "Context \<Rightarrow> (byte list) TraceEvent \<Rightarrow> error option" where
  "sink_accepts ctx evt = None"

definition sink_times_out :: "Context \<Rightarrow> (byte list) TraceEvent \<Rightarrow> error option" where
  "sink_times_out ctx evt = Some DeadlineExceeded"

definition example_now :: Time where
  "example_now = \<lparr>t_sec = 1700000000, t_nsec = 5\<rparr>"

definition example_newRPCMeta :: "byte list \<Rightarrow> unit option \<Rightarrow> byte list" where
  "example_newRPCMeta pid meta = pid"

definition example_publish :: "unit pb_TraceEvent" where
  "example_publish =
     \<lparr>pb_Type = Some 0, pb_Timestamp = Some 1700000000000000007,
      pb_PublishMessage = Some \<lparr>pb_MessageID = [0xAB, 0x12], pb_Topic = Some ''t''\<rparr>,
      pb_RecvRPC = None, pb_SendRPC = None, pb_DropRPC = None\<rparr>"

definition example_join :: "unit pb_TraceEvent" where
  "example_join =
     \<lparr>pb_Type = Some 9, pb_Timestamp = Some 1700000000000000007,
      pb_PublishMessage = None, pb_RecvRPC = None, pb_SendRPC = None, pb_DropRPC = None\<rparr>"

definition example_message :: Message where
  "example_message =
     \<lparr>msg_ID = [0xAB, 0x12], msg_ReceivedFrom = ''QmRemote'', msg_Local = False,
      msg_Topic = Some ''t'', msg_Seqno = [0x00, 0x2A], msg_Size = 42\<rparr>"

definition example_envelope :: "peer_ID \<Rightarrow> (byte list) TraceEvent" where
  "example_envelope p =
     \<lparr>Type = EventTypeJoin, PeerID = p, Timestamp = example_now,
      Payload = MapPayload [(''Topic'', AnyString ''topic-A'')]\<rparr>"


section \<open>Properties\<close>

subsection \<open>Time and hexadecimal text\<close>

lemma quo_nonneg: "0 \<le> a \<Longrightarrow> quo a 1000000000 = a div 1000000000"
  by (cases "a = 0") (simp_all add: quo_def)

lemma quo_neg: "a < 0 \<Longrightarrow> quo a 1000000000 = - ((- a) div 1000000000)"
  by (simp add: quo_def)

text \<open>\<open>time.Unix(0, n)\<close> stands for exactly \<open>n\<close> nanoseconds since the epoch.\<close>

lemma UnixNano_time_Unix: "UnixNano (time_Unix 0 n) = n"
proof (cases "n < 0")
  case True
  then show ?thesis
    by (simp add: UnixNano_def time_Unix_def Let_def quo_neg)
next
  case False
  then show ?thesis
    by (simp add: UnixNano_def time_Unix_def Let_def quo_nonneg)
qed

lemma time_Unix_nsec_range:
  "0 \<le> t_nsec (time_Unix 0 n) \<and> t_nsec (time_Unix 0 n) < 1000000000"
proof (cases "n < 0")
  case True
  have "(- n) mod 1000000000 < 1000000000" by simp
  moreover have "0 \<le> (- n) mod 1000000000" by simp
  moreover have "- n = (- n) div 1000000000 * 1000000000 + (- n) mod 1000000000" by simp
  ultimately show ?thesis using True
    by (auto simp add: time_Unix_def Let_def quo_neg)
next
  case False
  have "n mod 1000000000 < 1000000000" by simp
  moreover have "0 \<le> n mod 1000000000" by simp
  moreover have "n = n div 1000000000 * 1000000000 + n mod 1000000000" by simp
  ultimately show ?thesis using False
    by (auto simp add: time_Unix_def Let_def quo_nonneg)
qed

lemma high_nibble_less: "unat (drop_bit 4 (v::byte)) < 16"
proof -
  have "unat v < 256" using unsigned_less [of v] by simp
  moreover have "unat (drop_bit 4 v) = unat v div 2 ^ 4"
    by (simp add: drop_bit_eq_div unat_div)
  ultimately show ?thesis by simp
qed

lemma low_nibble_less: "unat ((v::byte) AND 0x0f) < 16"
proof -
  have "v AND 15 \<le> 15" by (rule word_and_le1)
  then have "unat (v AND 15) \<le> unat (15 :: byte)" by (simp only: word_le_nat_alt)
  then show ?thesis by simp
qed

text \<open>The output of \<open>EncodeToString\<close> has two characters a byte, all of them lowercase
  hexadecimal digits.\<close>

lemma EncodeToString_hex: "set (EncodeToString bs) \<subseteq> set hextable"
proof (induction bs)
  case Nil
  show ?case by simp
next
  case (Cons v bs)
  have len: "length hextable = 16" by (simp add: hextable_def)
  have "hextable ! unat (drop_bit 4 v) \<in> set hextable"
    by (rule nth_mem) (simp add: len high_nibble_less)
  moreover have "hextable ! unat (v AND 0x0f) \<in> set hextable"
    by (rule nth_mem) (simp only: len low_nibble_less)
  ultimately show ?case using Cons.IH by simp
qed

lemma EncodeToString_length: "length (EncodeToString bs) = 2 * length bs"
  by (induction bs) simp_all

subsection \<open>One delivery\<close>

lemma FlushTraceWithTimestamp_emitted:
  "emitted h (FlushTraceWithTimestamp evtType ts pl h) =
     [\<lparr>Type = evtType, PeerID = ID h, Timestamp = ts, Payload = pl\<rparr>]"
  by (simp add: emitted_def FlushTraceWithTimestamp_def cancel_def Let_def split: option.splits)

lemma FlushTrace_emitted:
  "emitted h (FlushTrace now evtType pl h) =
     [\<lparr>Type = evtType, PeerID = ID h, Timestamp = now, Payload = pl\<rparr>]"
  by (simp add: FlushTrace_def FlushTraceWithTimestamp_emitted)

lemma FlushTraceWithTimestamp_ID: "ID (FlushTraceWithTimestamp evtType ts pl h) = ID h"
  by (simp add: FlushTraceWithTimestamp_def cancel_def Let_def split: option.splits)

text \<open>
  The context handed to the client is \<open>context.TODO()\<close> with a timeout of ten seconds,
  and the deferred \<open>cancel\<close> has released it when the function returns, whatever the
  client answered.
\<close>

lemma FlushTraceWithTimestamp_context:
  "liveContexts (FlushTraceWithTimestamp evtType ts pl h) = liveContexts h \<and>
   map fst (drop (length (putEvents h)) (putEvents (FlushTraceWithTimestamp evtType ts pl h)))
     = [WithTimeout TODO 10000000000]"
  by (simp add: FlushTraceWithTimestamp_def cancel_def Let_def Second_def split: option.splits)

lemmas lifecycle_defs =
  AddPeer_def RemovePeer_def Join_def Leave_def Graft_def Prune_def ValidateMessage_def
  DeliverMessage_def RejectMessage_def DuplicateMessage_def ThrottlePeer_def
  UndeliverableMessage_def

lemma Trace_emitted:
  "emitted h (Trace nm evt h) =
     (if GetType evt = TraceEvent_PUBLISH_MESSAGE then
        [\<lparr>Type = EventTypePublishMessage, PeerID = ID h,
          Timestamp = time_Unix 0 (GetTimestamp evt),
          Payload = MapPayload
            [(''MsgID'', AnyBytes (GetMessageID (pb_PublishMessage evt))),
             (''Topic'', AnyString (GetPublishTopic (pb_PublishMessage evt)))]\<rparr>]
      else if GetType evt = TraceEvent_RECV_RPC then
        [\<lparr>Type = EventTypeRecvRPC, PeerID = ID h,
          Timestamp = time_Unix 0 (GetTimestamp evt),
          Payload = RpcMetaPayload
            (nm (GetReceivedFrom (pb_RecvRPC evt)) (GetRecvMeta (pb_RecvRPC evt)))\<rparr>]
      else if GetType evt = TraceEvent_SEND_RPC then
        [\<lparr>Type = EventTypeSendRPC, PeerID = ID h,
          Timestamp = time_Unix 0 (GetTimestamp evt),
          Payload = RpcMetaPayload
            (nm (GetSendTo (pb_SendRPC evt)) (GetSendMeta (pb_SendRPC evt)))\<rparr>]
      else if GetType evt = TraceEvent_DROP_RPC then
        [\<lparr>Type = EventTypeDropRPC, PeerID = ID h,
          Timestamp = time_Unix 0 (GetTimestamp evt),
          Payload = RpcMetaPayload
            (nm (GetDropSendTo (pb_DropRPC evt)) (GetDropMeta (pb_DropRPC evt)))\<rparr>]
      else [])"
  by (simp add: Trace_def Let_def FlushTraceWithTimestamp_emitted) (simp add: emitted_def)

lemma invoke_emitted_PeerID:
  "map PeerID (emitted h (invoke now nm c h)) =
     replicate (length (emitted h (invoke now nm c h))) (ID h)"
  by (cases c)
     (simp_all add: lifecycle_defs FlushTrace_emitted Trace_emitted RecvRPC_def SendRPC_def
        DropRPC_def, simp_all add: emitted_def)

lemma invoke_lifecycle_emitted:
  "lifecycle_type c = Some ty \<Longrightarrow>
   \<exists>kvs. emitted h (invoke now nm c h)
           = [\<lparr>Type = ty, PeerID = ID h, Timestamp = now, Payload = MapPayload kvs\<rparr>] \<and>
         distinct (map fst kvs) \<and> set (map fst kvs) = set (documented_fields ty)"
  by (cases c) (auto simp add: lifecycle_defs FlushTrace_emitted)

text \<open>
  The four message callbacks that carry a sequence number, and
  \<open>UndeliverableMessage\<close>, store the message identifier as the hexadecimal text of its
  bytes; the sequence number likewise.
\<close>

lemma message_callbacks_hex:
  "map Payload (emitted h (ValidateMessage now msg h)) =
     [MapPayload
        [(''PeerID'', AnyPeerID (msg_ReceivedFrom msg)),
         (''Topic'', AnyString (GetTopic msg)),
         (''MsgID'', AnyString (EncodeToString (msg_ID msg))),
         (''Local'', AnyBool (msg_Local msg)),
         (''MsgSize'', AnyInt (msg_Size msg)),
         (''SeqNo'', AnyString (EncodeToString (GetSeqno msg)))]]"
  "map Payload (emitted h (UndeliverableMessage now msg h)) =
     [MapPayload
        [(''PeerID'', AnyPeerID (msg_ReceivedFrom msg)),
         (''Topic'', AnyString (GetTopic msg)),
         (''MsgID'', AnyString (EncodeToString (msg_ID msg))),
         (''Local'', AnyBool (msg_Local msg))]]"
  by (simp_all add: lifecycle_defs FlushTrace_emitted)

text \<open>No entry point leaves a context behind.\<close>

lemma Trace_liveContexts: "liveContexts (Trace nm evt h) = liveContexts h"
  by (simp add: Trace_def Let_def FlushTraceWithTimestamp_context)

lemma invoke_releases_contexts: "liveContexts (invoke now nm c h) = liveContexts h"
  by (cases c)
     (simp_all add: lifecycle_defs FlushTrace_def FlushTraceWithTimestamp_context
        Trace_liveContexts RecvRPC_def SendRPC_def DropRPC_def)

lemma sequenced_callbacks_hex:
  "map Payload (emitted h (DeliverMessage now msg h)) =
     [MapPayload
        [(''PeerID'', AnyPeerID (msg_ReceivedFrom msg)),
         (''Topic'', AnyString (GetTopic msg)),
         (''MsgID'', AnyString (EncodeToString (msg_ID msg))),
         (''Local'', AnyBool (msg_Local msg)),
         (''MsgSize'', AnyInt (msg_Size msg)),
         (''Seq'', AnyString (EncodeToString (GetSeqno msg)))]]"
  "map Payload (emitted h (RejectMessage now msg reason h)) =
     [MapPayload
        [(''PeerID'', AnyPeerID (msg_ReceivedFrom msg)),
         (''Topic'', AnyString (GetTopic msg)),
         (''MsgID'', AnyString (EncodeToString (msg_ID msg))),
         (''Reason'', AnyString reason),
         (''Local'', AnyBool (msg_Local msg)),
         (''MsgSize'', AnyInt (msg_Size msg)),
         (''Seq'', AnyString (EncodeToString (GetSeqno msg)))]]"
  "map Payload (emitted h (DuplicateMessage now msg h)) =
     [MapPayload
        [(''PeerID'', AnyPeerID (msg_ReceivedFrom msg)),
         (''Topic'', AnyString (GetTopic msg)),
         (''MsgID'', AnyString (EncodeToString (msg_ID msg))),
         (''Local'', AnyBool (msg_Local msg)),
         (''MsgSize'', AnyInt (msg_Size msg)),
         (''Seq'', AnyString (EncodeToString (GetSeqno msg)))]]"
  by (simp_all add: lifecycle_defs FlushTrace_emitted)

text \<open>The scenario of the specification: a rejected message with identifier AB 12.\<close>

lemma reject_scenario:
  "map Payload (emitted (example_host sink_accepts)
      (RejectMessage example_now example_message ''invalid-signature''
         (example_host sink_accepts)))
     = [MapPayload
          [(''PeerID'', AnyPeerID ''QmRemote''), (''Topic'', AnyString ''t''),
           (''MsgID'', AnyString ''ab12''), (''Reason'', AnyString ''invalid-signature''),
           (''Local'', AnyBool False), (''MsgSize'', AnyInt 42),
           (''Seq'', AnyString ''002a'')]]"
  by (simp add: sequenced_callbacks_hex example_message_def GetTopic_def GetSeqno_def
      hextable_def)

subsection \<open>The claims\<close>

text \<open>
  C2. For every delivery attempt the counter of submitted traces grows by exactly one if
  and only if the call of the client succeeds. When the client returns an error (the
  deadline error of a timeout is one), the warning is logged with that error, the counter
  keeps its value, and the function returns the host: it has no error result.
\<close>

theorem C2_counter_iff_publish_succeeds:
  "((meterSubmittedTraces (FlushTraceWithTimestamp evtType ts pl h)
       = meterSubmittedTraces h + 1) = (publish_result evtType ts pl h = None)) \<and>
   (publish_result evtType ts pl h = None \<longrightarrow>
      slog_Warn (FlushTraceWithTimestamp evtType ts pl h) = slog_Warn h) \<and>
   (\<forall>err. publish_result evtType ts pl h = Some err \<longrightarrow>
      meterSubmittedTraces (FlushTraceWithTimestamp evtType ts pl h)
        = meterSubmittedTraces h \<and>
      slog_Warn (FlushTraceWithTimestamp evtType ts pl h)
        = slog_Warn h @ [(''Failed to put trace event payload'', err)])"
  by (cases "DataStream_PutEvent h (WithTimeout TODO (10 * Second))
        \<lparr>Type = evtType, PeerID = ID h, Timestamp = ts, Payload = pl\<rparr>")
     (simp_all add: publish_result_def FlushTraceWithTimestamp_def cancel_def Let_def)

theorem C2_counter_iff_publish_succeeds_witness:
  "publish_result EventTypeJoin example_now (MapPayload [(''Topic'', AnyString ''topic-A'')])
      (example_host sink_times_out) = Some DeadlineExceeded \<and>
   meterSubmittedTraces (FlushTraceWithTimestamp EventTypeJoin example_now
      (MapPayload [(''Topic'', AnyString ''topic-A'')]) (example_host sink_times_out)) = 0 \<and>
   slog_Warn (FlushTraceWithTimestamp EventTypeJoin example_now
      (MapPayload [(''Topic'', AnyString ''topic-A'')]) (example_host sink_times_out))
     = [(''Failed to put trace event payload'', DeadlineExceeded)] \<and>
   publish_result EventTypeJoin example_now (MapPayload [(''Topic'', AnyString ''topic-A'')])
      (example_host sink_accepts) = None \<and>
   meterSubmittedTraces (FlushTraceWithTimestamp EventTypeJoin example_now
      (MapPayload [(''Topic'', AnyString ''topic-A'')]) (example_host sink_accepts)) = 1 \<and>
   slog_Warn (FlushTraceWithTimestamp EventTypeJoin example_now
      (MapPayload [(''Topic'', AnyString ''topic-A'')]) (example_host sink_accepts)) = []"
  using C2_counter_iff_publish_succeeds [of EventTypeJoin example_now
      "MapPayload [(''Topic'', AnyString ''topic-A'')]" "example_host sink_times_out"]
    C2_counter_iff_publish_succeeds [of EventTypeJoin example_now
      "MapPayload [(''Topic'', AnyString ''topic-A'')]" "example_host sink_accepts"]
  by (simp add: publish_result_def example_host_def sink_times_out_def sink_accepts_def)

text \<open>
  C3. Every envelope handed to the client by any entry point (each lifecycle callback,
  each RPC callback, the wire entry point with any notification) carries the identity of
  the local host in its \<open>PeerID\<close> field; a remote peer appears in the payload only.
\<close>

theorem C3_observer_is_local_host:
  "\<forall>e \<in> set (emitted h (invoke now nm c h)). PeerID e = ID h"
proof
  fix e assume "e \<in> set (emitted h (invoke now nm c h))"
  then have "PeerID e \<in> set (map PeerID (emitted h (invoke now nm c h)))" by simp
  then show "PeerID e = ID h"
    by (simp only: invoke_emitted_PeerID [of h now nm c]) simp
qed

theorem C3_observer_is_local_host_witness:
  "map PeerID (emitted (example_host sink_accepts)
      (invoke example_now example_newRPCMeta
         (CallGraft ''QmRemote'' ''topic-A'' :: (unit, unit) call)
         (example_host sink_accepts))) = [''QmLocal''] \<and>
   map Payload (emitted (example_host sink_accepts)
      (invoke example_now example_newRPCMeta
         (CallGraft ''QmRemote'' ''topic-A'' :: (unit, unit) call)
         (example_host sink_accepts)))
     = [MapPayload [(''PeerID'', AnyPeerID ''QmRemote''), (''Topic'', AnyString ''topic-A'')]]"
  using C3_observer_is_local_host [of "example_host sink_accepts" example_now
    example_newRPCMeta "CallGraft ''QmRemote'' ''topic-A'' :: (unit, unit) call"]
  by (simp add: Graft_def FlushTrace_emitted example_host_def)



text \<open>
  C5 (the code departs from the claim). The wire entry point stores the message
  identifier of a publish notification as the raw bytes of the notification, not as
  hexadecimal text: for the identifier \<open>AB 12\<close> the payload holds the two bytes where
  the lifecycle callbacks of the same file would hold the text \<open>ab12\<close>.
\<close>

theorem C5_publish_msgid_raw_bytes:
  "map Payload (emitted (example_host sink_accepts)
      (Trace example_newRPCMeta example_publish (example_host sink_accepts)))
     = [MapPayload [(''MsgID'', AnyBytes [0xAB, 0x12]), (''Topic'', AnyString ''t'')]] \<and>
   AnyBytes [0xAB, 0x12] \<noteq> AnyString (EncodeToString [0xAB, 0x12]) \<and>
   EncodeToString [0xAB, 0x12] = ''ab12''"
  by (simp add: Trace_emitted GetType_def example_publish_def TraceEvent_PUBLISH_MESSAGE_def
      GetMessageID_def GetPublishTopic_def hextable_def)

text \<open>
  C6. The envelope of a lifecycle callback carries the clock reading taken in
  \<open>FlushTrace\<close>. The envelope of a wire notification of one of the four handled kinds
  carries \<open>time.Unix(0, ts)\<close> for the timestamp \<open>ts\<close> of the notification, whatever the
  clock reads, and that time stands for exactly \<open>ts\<close> nanoseconds since the epoch.
\<close>

theorem C6_timestamps:
  "(lifecycle_type c = Some ty \<longrightarrow>
      map Timestamp (emitted h (invoke now nm c h)) = [now]) \<and>
   (GetType evt \<in> wire_kinds \<longrightarrow>
      map Timestamp (emitted h (invoke now nm (CallTrace evt) h))
        = [time_Unix 0 (GetTimestamp evt)] \<and>
      UnixNano (time_Unix 0 (GetTimestamp evt)) = GetTimestamp evt)"
proof (intro conjI impI)
  assume "lifecycle_type c = Some ty"
  from invoke_lifecycle_emitted [OF this, of h now nm]
  show "map Timestamp (emitted h (invoke now nm c h)) = [now]" by auto
next
  assume "GetType evt \<in> wire_kinds"
  then show "map Timestamp (emitted h (invoke now nm (CallTrace evt) h))
        = [time_Unix 0 (GetTimestamp evt)]"
    by (auto simp add: wire_kinds_def Trace_emitted)
next
  show "UnixNano (time_Unix 0 (GetTimestamp evt)) = GetTimestamp evt"
    by (rule UnixNano_time_Unix)
qed

theorem C6_timestamps_witness:
  "lifecycle_type (CallJoin ''topic-A'' :: (unit, unit) call) = Some EventTypeJoin \<and>
   map Timestamp (emitted (example_host sink_accepts)
      (invoke example_now example_newRPCMeta (CallJoin ''topic-A'' :: (unit, unit) call)
         (example_host sink_accepts))) = [example_now] \<and>
   GetType example_publish \<in> wire_kinds \<and>
   map Timestamp (emitted (example_host sink_accepts)
      (invoke example_now example_newRPCMeta (CallTrace example_publish :: (unit, unit) call)
         (example_host sink_accepts))) = [\<lparr>t_sec = 1700000000, t_nsec = 7\<rparr>] \<and>
   UnixNano \<lparr>t_sec = 1700000000, t_nsec = 7\<rparr> = 1700000000000000007"
proof -
  have k: "GetType example_publish \<in> wire_kinds"
    by (simp add: GetType_def example_publish_def wire_kinds_def
        TraceEvent_PUBLISH_MESSAGE_def)
  have t: "time_Unix 0 (GetTimestamp example_publish) = \<lparr>t_sec = 1700000000, t_nsec = 7\<rparr>"
    by (simp add: time_Unix_def GetTimestamp_def example_publish_def quo_def Let_def)
  have g: "GetTimestamp example_publish = 1700000000000000007"
    by (simp add: GetTimestamp_def example_publish_def)
  show ?thesis
    using k t g C6_timestamps [of "CallJoin ''topic-A'' :: (unit, unit) call" EventTypeJoin
        "example_host sink_accepts" example_now example_newRPCMeta example_publish]
    by simp
qed

text \<open>
  C7 (as stated it fails). When \<open>uuid.NewUUID\<close> returns an error, the partition key is
  the \<open>PeerID\<close> of the envelope, so two envelopes that differ in that field get
  different keys.
\<close>

theorem C7_partition_key_counterexample:
  "PartitionKey (Inl (ErrOther ''clock'')) (example_envelope ''QmA'')
     \<noteq> PartitionKey (Inl (ErrOther ''clock'')) (example_envelope ''QmB'')"
  by (simp add: PartitionKey_def example_envelope_def)

text \<open>
  C7 (amended). When \<open>uuid.NewUUID\<close> succeeds, the partition key is the text of the new
  identifier and is the same for any two envelopes; when it fails, the key is the
  \<open>PeerID\<close> of the envelope.
\<close>

theorem C7_partition_key:
  "PartitionKey (Inr u) t = u \<and>
   PartitionKey (Inr u) t = PartitionKey (Inr u) t' \<and>
   PartitionKey (Inl err) t = PeerID t"
  by (simp add: PartitionKey_def)

text \<open>
  C8. For a wire notification whose kind is none of publish, receive, send and drop, the
  wire entry point returns the host as it was: no envelope, no call of the client, no
  warning, no change of the counter.
\<close>

theorem C8_unhandled_kind_ignored:
  "GetType evt \<notin> wire_kinds \<Longrightarrow>
   invoke now nm (CallTrace evt) h = h \<and> emitted h (invoke now nm (CallTrace evt) h) = []"
  by (simp add: wire_kinds_def Trace_def emitted_def)

theorem C8_unhandled_kind_ignored_witness:
  "GetType example_join \<notin> wire_kinds \<and>
   invoke example_now example_newRPCMeta (CallTrace example_join :: (unit, unit) call)
     (example_host sink_accepts) = example_host sink_accepts \<and>
   emitted (example_host sink_accepts)
     (invoke example_now example_newRPCMeta (CallTrace example_join :: (unit, unit) call)
        (example_host sink_accepts)) = []"
proof -
  have k: "GetType example_join \<notin> wire_kinds"
    by (simp add: GetType_def example_join_def wire_kinds_def TraceEvent_PUBLISH_MESSAGE_def
        TraceEvent_RECV_RPC_def TraceEvent_SEND_RPC_def TraceEvent_DROP_RPC_def)
  show ?thesis
    using k C8_unhandled_kind_ignored [OF k, of example_now example_newRPCMeta
        "example_host sink_accepts"]
    by (simp add: emitted_def)
qed




text \<open>
  C10. The callbacks \<open>RecvRPC\<close>, \<open>SendRPC\<close> and \<open>DropRPC\<close> return the host as it
  was for every argument: no envelope, no call of the client, no change of state. The
  wire entry point is the one that reports an RPC: a notification of kind receive, send
  or drop gives one envelope there.
\<close>

theorem C10_rpc_callbacks_are_noops:
  "invoke now nm (CallRecvRPC rpc) h = h \<and>
   invoke now nm (CallSendRPC rpc p) h = h \<and>
   invoke now nm (CallDropRPC rpc p) h = h \<and>
   emitted h (invoke now nm (CallRecvRPC rpc) h) = [] \<and>
   emitted h (invoke now nm (CallSendRPC rpc p) h) = [] \<and>
   emitted h (invoke now nm (CallDropRPC rpc p) h) = [] \<and>
   map Type (emitted h (Trace nm (evt\<lparr>pb_Type := Some TraceEvent_RECV_RPC\<rparr>) h))
     = [EventTypeRecvRPC] \<and>
   map Type (emitted h (Trace nm (evt\<lparr>pb_Type := Some TraceEvent_SEND_RPC\<rparr>) h))
     = [EventTypeSendRPC] \<and>
   map Type (emitted h (Trace nm (evt\<lparr>pb_Type := Some TraceEvent_DROP_RPC\<rparr>) h))
     = [EventTypeDropRPC]"
  by (simp add: RecvRPC_def SendRPC_def DropRPC_def emitted_def [of h h] Trace_emitted
      GetType_def TraceEvent_PUBLISH_MESSAGE_def TraceEvent_RECV_RPC_def
      TraceEvent_SEND_RPC_def TraceEvent_DROP_RPC_def)

end
